theory Spec2Isabelle
  imports
    Complex_Main
    "HOL-Library.Sublist"
    "HOL-Library.Multiset"
    "HOL-Library.Char_ord"
    "HOL-Library.List_Lexorder"
    "HOL-Library.Product_Lexorder"
begin

section \<open>Data model\<close>

text \<open>
  The dashboard script \<^verbatim>\<open>app.py\<close> works on one table of order lines. A table is
  the list of its rows, in row order; a row is a record with one field per column the
  script reads. A missing cell (NaN, NaT) is \<open>None\<close>. Amounts are exact real numbers:
  the rounding of 64-bit floating-point addition is not part of the model, and nothing
  is stated here that depends on the order in which a sum is added up. A timestamp
  is the number of nanoseconds since 1970-01-01T00:00, as in a datetime64 column.

  \<open>base_row\<close> holds the columns that \<^verbatim>\<open>load_data\<close> never assigns. A \<open>csv_row\<close> is
  a row of the file as the CSV reader finds it: the text of the timestamp, the value
  and the quantity, which the reader or \<^verbatim>\<open>load_data\<close> converts, and the other
  columns as the reader delivers them. A \<open>row\<close> is a row of the loaded table \<^verbatim>\<open>df\<close>.
\<close>

record base_row =
  order_id :: "string option"
  order_month :: "string option"
  department :: "string option"
  category :: "string option"
  brand :: "string option"
  sku_id :: "string option"
  city :: "string option"
  city_zone :: "string option"
  channel :: "string option"
  nationality_group :: "string option"
  age :: "int option"
  loyalty_member :: "int option"
  basket_size_items :: "real option"

record csv_row = base_row +
  order_datetime_text :: "string option"
  line_value_aed_text :: "string option"
  quantity_text :: "string option"

record row = base_row +
  order_datetime :: "int option"
  order_month_dt :: "int option"
  day_of_week :: "string option"
  hour_of_day :: "int option"
  line_value_aed :: "real option"
  quantity :: "real option"

text \<open>
  The sidebar selections (lines 33 to 37). A select box holds the string \<open>''All''\<close> or
  one value of its column; the slider holds two integers.
\<close>

record filter_spec =
  department_sel :: string
  category_sel :: string
  nationality_sel :: string
  age_min :: int
  age_max :: int
  month_sel :: string

section \<open>Filter engine (lines 52 to 61)\<close>

text \<open>
  \<^verbatim>\<open>df[df[col] == v]\<close>: the rows whose cell equals the string \<open>v\<close>. A missing cell
  compares unequal to every string.
\<close>

definition mask_eq :: "('r \<Rightarrow> string option) \<Rightarrow> string \<Rightarrow> 'r list \<Rightarrow> 'r list" where
  "mask_eq col v t = filter (\<lambda>r. col r = Some v) t"

text \<open>\<^verbatim>\<open>(df['age'] >= lo) & (df['age'] <= hi)\<close>: both comparisons are false on a missing age.\<close>

definition age_between :: "int \<Rightarrow> int \<Rightarrow> int option \<Rightarrow> bool" where
  "age_between lo hi a = (case a of None \<Rightarrow> False | Some x \<Rightarrow> lo \<le> x \<and> x \<le> hi)"

definition apply_filters :: "filter_spec \<Rightarrow> row list \<Rightarrow> row list" where
  "apply_filters f df =
    (let df_filtered = df;
         df_filtered = (if department_sel f \<noteq> ''All''
                        then mask_eq department (department_sel f) df_filtered
                        else df_filtered);
         df_filtered = (if category_sel f \<noteq> ''All''
                        then mask_eq category (category_sel f) df_filtered
                        else df_filtered);
         df_filtered = (if nationality_sel f \<noteq> ''All''
                        then mask_eq nationality_group (nationality_sel f) df_filtered
                        else df_filtered);
         df_filtered = filter (\<lambda>r. age_between (age_min f) (age_max f) (age r)) df_filtered;
         df_filtered = (if month_sel f \<noteq> ''All''
                        then mask_eq order_month (month_sel f) df_filtered
                        else df_filtered)
     in df_filtered)"

text \<open>
  The contract of the filter engine in the specification's words: a row passes when it
  meets every active predicate. A selection of \<open>''All''\<close> is inactive; the age range is
  always active.
\<close>

definition satisfies :: "filter_spec \<Rightarrow> row \<Rightarrow> bool" where
  "satisfies f r =
    ((department_sel f = ''All'' \<or> department r = Some (department_sel f)) \<and>
     (category_sel f = ''All'' \<or> category r = Some (category_sel f)) \<and>
     (nationality_sel f = ''All'' \<or> nationality_group r = Some (nationality_sel f)) \<and>
     (case age r of None \<Rightarrow> False | Some a \<Rightarrow> age_min f \<le> a \<and> a \<le> age_max f) \<and>
     (month_sel f = ''All'' \<or> order_month r = Some (month_sel f)))"

section \<open>Reductions of the data-frame library\<close>

text \<open>
  A column is the list of its cells. The script reduces columns with the library's
  default options: missing cells are skipped (\<^verbatim>\<open>skipna=True\<close>), the sum of no value
  is 0 (\<^verbatim>\<open>min_count=0\<close>), the mean of no value is NaN.
\<close>

text \<open>\<^verbatim>\<open>Series.sum()\<close>: missing cells are replaced by 0, then the cells are added up.\<close>

definition series_sum :: "real option list \<Rightarrow> real" where
  "series_sum s = sum_list (map (\<lambda>c. case c of None \<Rightarrow> 0 | Some v \<Rightarrow> v) s)"

text \<open>\<^verbatim>\<open>Series.count()\<close>: the number of cells that are present.\<close>

definition series_count :: "'a option list \<Rightarrow> nat" where
  "series_count s = length (filter (\<lambda>c. c \<noteq> None) s)"

text \<open>\<^verbatim>\<open>Series.mean()\<close>: the sum over the count of the present cells; NaN when there is none.\<close>

definition series_mean :: "real option list \<Rightarrow> real option" where
  "series_mean s =
    (if series_count s = 0 then None else Some (series_sum s / real (series_count s)))"

text \<open>\<^verbatim>\<open>Series.nunique()\<close>: the number of distinct present cells.\<close>

definition nunique :: "'a option list \<Rightarrow> nat" where
  "nunique s = length (remdups (List.map_filter (\<lambda>c. c) s))"

text \<open>
  \<^verbatim>\<open>df.groupby(key)\<close>: one group per distinct present key, the groups in ascending
  key order (\<^verbatim>\<open>sort=True\<close>), rows with a missing key left out (\<^verbatim>\<open>dropna=True\<close>),
  the rows of a group in table order.
\<close>

definition group_keys :: "('r \<Rightarrow> 'k::linorder option) \<Rightarrow> 'r list \<Rightarrow> 'k list" where
  "group_keys key t = sort (remdups (List.map_filter key t))"

definition groupby :: "('r \<Rightarrow> 'k::linorder option) \<Rightarrow> 'r list \<Rightarrow> ('k \<times> 'r list) list" where
  "groupby key t = map (\<lambda>k. (k, filter (\<lambda>r. key r = Some k) t)) (group_keys key t)"

text \<open>\<^verbatim>\<open>df.groupby(key)[col].sum()\<close> and \<^verbatim>\<open>df.groupby(key)[col].nunique()\<close>.\<close>

definition groupby_sum ::
  "('r \<Rightarrow> 'k::linorder option) \<Rightarrow> ('r \<Rightarrow> real option) \<Rightarrow> 'r list \<Rightarrow> ('k \<times> real) list" where
  "groupby_sum key col t = map (\<lambda>(k, g). (k, series_sum (map col g))) (groupby key t)"

definition groupby_nunique ::
  "('r \<Rightarrow> 'k::linorder option) \<Rightarrow> ('r \<Rightarrow> 'a option) \<Rightarrow> 'r list \<Rightarrow> ('k \<times> nat) list" where
  "groupby_nunique key col t = map (\<lambda>(k, g). (k, nunique (map col g))) (groupby key t)"

text \<open>
  \<^verbatim>\<open>s.reindex(labels)\<close>: one entry per requested label, in the requested order; a label
  the series does not have gets a missing value (no \<^verbatim>\<open>fill_value\<close> is passed).
\<close>

definition reindex :: "'k list \<Rightarrow> ('k \<times> 'v) list \<Rightarrow> ('k \<times> 'v option) list" where
  "reindex labels s = map (\<lambda>l. (l, map_of s l)) labels"

text \<open>\<^verbatim>\<open>s.sort_index()\<close> on a series with distinct labels.\<close>

definition sort_index :: "('k::linorder \<times> 'v) list \<Rightarrow> ('k \<times> 'v) list" where
  "sort_index s = sort_key fst s"


definition sort_values_desc ::
  "(real list \<Rightarrow> nat list) \<Rightarrow> ('k \<times> real) list \<Rightarrow> ('k \<times> real) list" where
  "sort_values_desc argsort s =
    (let vals = rev (map snd s);
         idx = rev [0..<length s];
         indexer = map (\<lambda>j. idx ! j) (argsort vals);
         indexer = rev indexer
     in map (\<lambda>i. s ! i) indexer)"

text \<open>A stable sorting routine, for comparison.\<close>

definition stable_argsort :: "real list \<Rightarrow> nat list" where
  "stable_argsort vs = map snd (sort_key fst (zip vs [0..<length vs]))"

subsection \<open>The library's default sorting routine\<close>

text \<open>
  \<^verbatim>\<open>argsort\<close> of kind \<^verbatim>\<open>quicksort\<close> on 64-bit floating-point values is the array
  library's \<^verbatim>\<open>aquicksort\<close>, an introsort: it sorts the array \<^verbatim>\<open>tosort\<close> of
  positions, which starts as \<open>0, 1, \<dots>\<close>, by the values \<^verbatim>\<open>v\<close> they point to. Ranges
  with more than 17 positions are partitioned around the median of three; the larger
  part is put on a stack and the smaller one is partitioned further; a range of at most
  17 positions is sorted by insertion; a range that is reached after more than
  \<open>2 \<lfloor>log\<^sub>2 n\<rfloor>\<close> partitions is sorted by \<^verbatim>\<open>aheapsort\<close>. This is the portable routine
  of the library, the one that runs wherever no vectorised variant is dispatched. The
  values compared are never missing: \<^verbatim>\<open>sort_values\<close> takes missing values out
  before it sorts. \<open>a\<close> is the array \<^verbatim>\<open>tosort\<close>; the pointers \<^verbatim>\<open>pl\<close>, \<^verbatim>\<open>pr\<close>,
  \<^verbatim>\<open>pi\<close>, \<^verbatim>\<open>pj\<close> are positions in it (\<^verbatim>\<open>pi\<close> and \<^verbatim>\<open>pj\<close> are \<open>p\<close> and \<open>q\<close>
  here).
\<close>
































section \<open>Key figures (lines 69 to 72)\<close>

definition total_sales :: "row list \<Rightarrow> real" where
  "total_sales df_filtered = series_sum (map line_value_aed df_filtered)"

definition unique_orders :: "row list \<Rightarrow> nat" where
  "unique_orders df_filtered = nunique (map order_id df_filtered)"

definition avg_order_value :: "row list \<Rightarrow> real option" where
  "avg_order_value df_filtered =
    series_mean (map (\<lambda>(k, v). Some v) (groupby_sum order_id line_value_aed df_filtered))"

definition loyalty_ratio :: "row list \<Rightarrow> real option" where
  "loyalty_ratio df_filtered =
    map_option (\<lambda>m. m * 100)
      (series_mean (map (\<lambda>r. map_option real_of_int (loyalty_member r)) df_filtered))"

section \<open>Aggregations behind the charts and the table (lines 103 to 199)\<close>

text \<open>
  Each definition is the series or table that the function of the same name hands to
  the plotting backend.
\<close>

definition plot_monthly_trend :: "row list \<Rightarrow> (int \<times> real) list" where
  "plot_monthly_trend df = sort_index (groupby_sum order_month_dt line_value_aed df)"

definition plot_channel_ratio :: "row list \<Rightarrow> (string \<times> real) list" where
  "plot_channel_ratio df = groupby_sum channel line_value_aed df"

definition weekdays :: "string list" where
  "weekdays = [''Monday'', ''Tuesday'', ''Wednesday'', ''Thursday'', ''Friday'',
               ''Saturday'', ''Sunday'']"

definition plot_dow :: "row list \<Rightarrow> (string \<times> nat option) list" where
  "plot_dow df = reindex weekdays (groupby_nunique day_of_week order_id df)"

definition plot_top_cities :: "(real list \<Rightarrow> nat list) \<Rightarrow> row list \<Rightarrow> (string \<times> real) list" where
  "plot_top_cities argsort df =
    take 10 (sort_values_desc argsort (groupby_sum city line_value_aed df))"

definition plot_top_city_zones ::
  "(real list \<Rightarrow> nat list) \<Rightarrow> row list \<Rightarrow> (string \<times> real) list" where
  "plot_top_city_zones argsort df =
    take 10 (sort_values_desc argsort (groupby_sum city_zone line_value_aed df))"

definition plot_aov :: "row list \<Rightarrow> (string \<times> real) list" where
  "plot_aov df = groupby_sum order_id line_value_aed df"

definition plot_department_sales ::
  "(real list \<Rightarrow> nat list) \<Rightarrow> row list \<Rightarrow> (string \<times> real) list" where
  "plot_department_sales argsort df =
    take 10 (sort_values_desc argsort (groupby_sum department line_value_aed df))"

definition plot_category_sales ::
  "(real list \<Rightarrow> nat list) \<Rightarrow> row list \<Rightarrow> (string \<times> real) list" where
  "plot_category_sales argsort df =
    take 10 (sort_values_desc argsort (groupby_sum category line_value_aed df))"

definition plot_basket_size :: "row list \<Rightarrow> real list" where
  "plot_basket_size df = List.map_filter basket_size_items df"

text \<open>The key of \<^verbatim>\<open>groupby(['sku_id','brand','city_zone'])\<close>: missing when any part is.\<close>

definition sku_key :: "row \<Rightarrow> (string \<times> string \<times> string) option" where
  "sku_key r =
    (case (sku_id r, brand r, city_zone r) of
       (Some s, Some b, Some z) \<Rightarrow> Some (s, b, z)
     | _ \<Rightarrow> None)"

definition top_skus ::
  "(real list \<Rightarrow> nat list) \<Rightarrow> row list \<Rightarrow> ((string \<times> string \<times> string) \<times> real) list" where
  "top_skus argsort df_filtered =
    take 50 (sort_values_desc argsort (groupby_sum sku_key line_value_aed df_filtered))"


section \<open>Dataset loader (lines 14 to 22)\<close>

text \<open>
  The grammar of dates and numbers belongs to the library, so its cell parsers are
  parameters of the loader: \<open>parse_dates\<close> (the reader's, line 15) and \<open>to_datetime\<close>
  (line 17) give the timestamp a text denotes, if it denotes one, and \<open>to_numeric\<close>
  (lines 20 and 21) the number. Column names are the field names of the records, so
  stripping the header (line 16) has no counterpart here.
\<close>

record parsers =
  parse_dates :: "string \<Rightarrow> int option"
  to_datetime :: "string \<Rightarrow> int option"
  to_numeric :: "string \<Rightarrow> real option"

datatype error = AttributeError

text \<open>\<^verbatim>\<open>errors='coerce'\<close>: a cell that does not parse becomes missing; a missing cell stays so.\<close>

definition coerce :: "(string \<Rightarrow> 'a option) \<Rightarrow> string option \<Rightarrow> 'a option" where
  "coerce parse c = (case c of None \<Rightarrow> None | Some s \<Rightarrow> parse s)"

text \<open>
  \<^verbatim>\<open>read_csv(path, parse_dates=["order_datetime"])\<close> turns the column into timestamps
  only when every cell that is present parses; otherwise it hands the column back
  unaltered, as text. On a file with a header and no data row the reader builds its
  columns empty and untyped and converts no dates. The accessor \<^verbatim>\<open>.dt\<close> of line 18
  raises \<^verbatim>\<open>AttributeError\<close> on a column that is not of timestamps.
\<close>

definition datetime_dtype :: "parsers \<Rightarrow> csv_row list \<Rightarrow> bool" where
  "datetime_dtype P csv =
    (csv \<noteq> [] \<and>
     list_all (\<lambda>r. case order_datetime_text r of None \<Rightarrow> True
                   | Some s \<Rightarrow> parse_dates P s \<noteq> None) csv)"

text \<open>
  \<^verbatim>\<open>.dt.day_name()\<close> and \<^verbatim>\<open>.dt.hour\<close> of a timestamp in nanoseconds since the epoch;
  1970-01-01 was a Thursday.
\<close>

definition day_name :: "int \<Rightarrow> string" where
  "day_name ts = weekdays ! nat ((ts div 86400000000000 + 3) mod 7)"

definition hour :: "int \<Rightarrow> int" where
  "hour ts = (ts div 3600000000000) mod 24"

definition load_row :: "parsers \<Rightarrow> csv_row \<Rightarrow> row" where
  "load_row P r =
    (let dt = coerce (parse_dates P) (order_datetime_text r) in
     \<lparr>order_id = order_id r, order_month = order_month r, department = department r,
      category = category r, brand = brand r, sku_id = sku_id r, city = city r,
      city_zone = city_zone r, channel = channel r,
      nationality_group = nationality_group r, age = age r,
      loyalty_member = loyalty_member r, basket_size_items = basket_size_items r,
      order_datetime = dt,
      order_month_dt = coerce (to_datetime P) (order_month r),
      day_of_week = map_option day_name dt,
      hour_of_day = map_option hour dt,
      line_value_aed = coerce (to_numeric P) (line_value_aed_text r),
      quantity = coerce (to_numeric P) (quantity_text r)\<rparr>)"

definition load_data :: "parsers \<Rightarrow> csv_row list \<Rightarrow> error + row list" where
  "load_data P csv =
    (if datetime_dtype P csv then Inr (map (load_row P) csv) else Inl AttributeError)"

section \<open>Export (lines 202 to 207)\<close>

text \<open>
  The download button receives the text \<^verbatim>\<open>df_filtered.to_csv(index=False)\<close>: the
  header record, then one record for each row, without the row labels. How a row is
  written as a record is the library's matter and a parameter here, and so is how the
  reader turns a record back into the cells of a row. The reader takes the first record
  of a file as the header (the specification's input format has one) and every further
  record as a row.
\<close>

definition to_csv :: "string \<Rightarrow> (row \<Rightarrow> string) \<Rightarrow> row list \<Rightarrow> string list" where
  "to_csv header write_row df_filtered = header # map write_row df_filtered"

definition read_csv :: "(string \<Rightarrow> csv_row) \<Rightarrow> string list \<Rightarrow> csv_row list" where
  "read_csv read_row file = map read_row (tl file)"

section \<open>Chart selection (lines 170 to 187)\<close>

text \<open>
  The series handed to the plotting backend for the chosen label, and nothing for any
  other string.
\<close>

datatype chart_data =
  NoChart
  | MonthlyTrend "(int \<times> real) list"
  | Shares "(string \<times> real) list"
  | DayCounts "(string \<times> nat option) list"
  | Ranking "(string \<times> real) list"
  | OrderValues "(string \<times> real) list"
  | BasketSizes "real list"

definition show_chart :: "string \<Rightarrow> (real list \<Rightarrow> nat list) \<Rightarrow> row list \<Rightarrow> chart_data" where
  "show_chart graph_choice argsort df_filtered =
    (if graph_choice = ''Monthly Revenue Trend''
       then MonthlyTrend (plot_monthly_trend df_filtered)
     else if graph_choice = ''Channel Ratio''
       then Shares (plot_channel_ratio df_filtered)
     else if graph_choice = ''Orders by Day of Week''
       then DayCounts (plot_dow df_filtered)
     else if graph_choice = ''Top Cities''
       then Ranking (plot_top_cities argsort df_filtered)
     else if graph_choice = ''Top City Zones''
       then Ranking (plot_top_city_zones argsort df_filtered)
     else if graph_choice = ''Average Order Value (AOV)''
       then OrderValues (plot_aov df_filtered)
     else if graph_choice = ''Department Sales''
       then Ranking (plot_department_sales argsort df_filtered)
     else if graph_choice = ''Category Sales''
       then Ranking (plot_category_sales argsort df_filtered)
     else if graph_choice = ''Basket Size Distribution''
       then BasketSizes (plot_basket_size df_filtered)
     else NoChart)"

section \<open>The script as a program on a store\<close>

text \<open>
  The script binds the names \<^verbatim>\<open>df\<close> and \<^verbatim>\<open>df_filtered\<close> to table objects. The store
  keeps the objects in a list, an object's address being its position; a name holds an
  address. \<^verbatim>\<open>df.copy()\<close> and the selection \<^verbatim>\<open>df_filtered[mask]\<close> each build a new
  object; an assignment rebinds the name. The key figures, the chosen chart and the SKU
  table are computed from the object that \<^verbatim>\<open>df_filtered\<close> names and bound to names
  of their own.
\<close>

record state =
  heap :: "row list list"
  df_ref :: nat
  df_filtered_ref :: nat
  total_sales_var :: real
  unique_orders_var :: nat
  avg_order_value_var :: "real option"
  loyalty_ratio_var :: "real option"
  chart_var :: chart_data
  top_skus_var :: "((string \<times> string \<times> string) \<times> real) list"

definition alloc :: "row list \<Rightarrow> state \<Rightarrow> nat \<times> state" where
  "alloc t s = (length (heap s), s\<lparr>heap := heap s @ [t]\<rparr>)"

definition frame_copy :: "nat \<Rightarrow> state \<Rightarrow> nat \<times> state" where
  "frame_copy a s = alloc (heap s ! a) s"

definition getitem_mask :: "nat \<Rightarrow> (row \<Rightarrow> bool) \<Rightarrow> state \<Rightarrow> nat \<times> state" where
  "getitem_mask a keep s = alloc (filter keep (heap s ! a)) s"

text \<open>\<^verbatim>\<open>df_filtered = df_filtered[mask]\<close>.\<close>

definition select_rows :: "(row \<Rightarrow> bool) \<Rightarrow> state \<Rightarrow> state" where
  "select_rows keep s =
    (let (a, s') = getitem_mask (df_filtered_ref s) keep s in s'\<lparr>df_filtered_ref := a\<rparr>)"

definition run_filters :: "filter_spec \<Rightarrow> state \<Rightarrow> state" where
  "run_filters f s =
    (let (a, s) = frame_copy (df_ref s) s;
         s = s\<lparr>df_filtered_ref := a\<rparr>;
         s = (if department_sel f \<noteq> ''All''
              then select_rows (\<lambda>r. department r = Some (department_sel f)) s else s);
         s = (if category_sel f \<noteq> ''All''
              then select_rows (\<lambda>r. category r = Some (category_sel f)) s else s);
         s = (if nationality_sel f \<noteq> ''All''
              then select_rows (\<lambda>r. nationality_group r = Some (nationality_sel f)) s else s);
         s = select_rows (\<lambda>r. age_between (age_min f) (age_max f) (age r)) s;
         s = (if month_sel f \<noteq> ''All''
              then select_rows (\<lambda>r. order_month r = Some (month_sel f)) s else s)
     in s)"

definition run_aggregations :: "string \<Rightarrow> (real list \<Rightarrow> nat list) \<Rightarrow> state \<Rightarrow> state" where
  "run_aggregations graph_choice argsort s =
    (let df_filtered = heap s ! df_filtered_ref s in
     s\<lparr>total_sales_var := total_sales df_filtered,
       unique_orders_var := unique_orders df_filtered,
       avg_order_value_var := avg_order_value df_filtered,
       loyalty_ratio_var := loyalty_ratio df_filtered,
       chart_var := show_chart graph_choice argsort df_filtered,
       top_skus_var := top_skus argsort df_filtered\<rparr>)"

definition run_script ::
  "filter_spec \<Rightarrow> string \<Rightarrow> (real list \<Rightarrow> nat list) \<Rightarrow> state \<Rightarrow> state" where
  "run_script f graph_choice argsort s =
    run_aggregations graph_choice argsort (run_filters f s)"

text \<open>
  The invariant of the filter steps, relative to the store \<open>s0\<close> they started from: the
  name \<^verbatim>\<open>df\<close> is still bound as it was, every object of \<open>s0\<close> is unchanged, and
  \<^verbatim>\<open>df_filtered\<close> names an object built since, with rows \<open>t\<close>.
\<close>

definition frame_inv :: "state \<Rightarrow> state \<Rightarrow> row list \<Rightarrow> bool" where
  "frame_inv s0 s t =
    (df_ref s = df_ref s0 \<and> take (length (heap s0)) (heap s) = heap s0 \<and>
     length (heap s0) \<le> df_filtered_ref s \<and> df_filtered_ref s < length (heap s) \<and>
     heap s ! df_filtered_ref s = t)"

section \<open>Example data\<close>

definition blank_row :: row where
  "blank_row =
    \<lparr>order_id = None, order_month = None, department = None, category = None,
     brand = None, sku_id = None, city = None, city_zone = None, channel = None,
     nationality_group = None, age = None, loyalty_member = None,
     basket_size_items = None, order_datetime = None, order_month_dt = None,
     day_of_week = None, hour_of_day = None, line_value_aed = None, quantity = None\<rparr>"

definition no_filter :: filter_spec where
  "no_filter =
    \<lparr>department_sel = ''All'', category_sel = ''All'', nationality_sel = ''All'',
     age_min = 18, age_max = 80, month_sel = ''All''\<rparr>"

text \<open>The three-row data set of the specification's scenario, with ages and order ids.\<close>

definition scenario_df :: "row list" where
  "scenario_df =
    [blank_row\<lparr>order_id := Some ''A1'', department := Some ''Grocery'', age := Some 30,
               line_value_aed := Some 100\<rparr>,
     blank_row\<lparr>order_id := Some ''A2'', department := Some ''Grocery'', age := Some 41,
               line_value_aed := None\<rparr>,
     blank_row\<lparr>order_id := Some ''A3'', department := Some ''Electronics'', age := Some 25,
               line_value_aed := Some 50\<rparr>]"

definition grocery_filter :: filter_spec where
  "grocery_filter = no_filter\<lparr>department_sel := ''Grocery''\<rparr>"



text \<open>Three orders, none of them on a Sunday.\<close>

definition no_sunday_df :: "row list" where
  "no_sunday_df =
    [blank_row\<lparr>order_id := Some ''A1'', day_of_week := Some ''Monday''\<rparr>,
     blank_row\<lparr>order_id := Some ''A1'', day_of_week := Some ''Monday''\<rparr>,
     blank_row\<lparr>order_id := Some ''A2'', day_of_week := Some ''Monday''\<rparr>,
     blank_row\<lparr>order_id := Some ''A3'', day_of_week := Some ''Friday''\<rparr>]"

text \<open>
  An excerpt of the library's parsers, defined on the texts of the examples below and
  on no other text.
\<close>

definition example_parsers :: parsers where
  "example_parsers =
    \<lparr>parse_dates = map_of [(''2024-01-01 10:30:00'', 1704105000000000000)],
     to_datetime = map_of [(''2024-01'', 1704067200000000000)],
     to_numeric = map_of [(''100'', 100), (''12.5'', 12.5), (''3'', 3)]\<rparr>"

definition blank_csv_row :: csv_row where
  "blank_csv_row =
    \<lparr>order_id = None, order_month = None, department = None, category = None,
     brand = None, sku_id = None, city = None, city_zone = None, channel = None,
     nationality_group = None, age = None, loyalty_member = None,
     basket_size_items = None, order_datetime_text = None, line_value_aed_text = None,
     quantity_text = None\<rparr>"

text \<open>A file whose second row has an empty timestamp and three cells that do not parse.\<close>

definition messy_csv :: "csv_row list" where
  "messy_csv =
    [blank_csv_row\<lparr>order_id := Some ''A1'', order_month := Some ''2024-01'',
                   department := Some ''Grocery'', age := Some 30,
                   order_datetime_text := Some ''2024-01-01 10:30:00'',
                   line_value_aed_text := Some ''12.5'', quantity_text := Some ''3''\<rparr>,
     blank_csv_row\<lparr>order_id := Some ''A2'', order_month := Some ''soon'',
                   department := Some ''Grocery'', age := Some 41,
                   order_datetime_text := None,
                   line_value_aed_text := Some ''n/a'', quantity_text := Some ''three''\<rparr>]"

text \<open>A file with one row, whose timestamp does not parse.\<close>

definition bad_datetime_csv :: "csv_row list" where
  "bad_datetime_csv =
    [blank_csv_row\<lparr>order_id := Some ''A1'', order_month := Some ''2024-01'',
                   order_datetime_text := Some ''yesterday'',
                   line_value_aed_text := Some ''100'', quantity_text := Some ''3''\<rparr>]"

text \<open>A selection that no row of the scenario matches.\<close>

definition bakery_filter :: filter_spec where
  "bakery_filter = no_filter\<lparr>department_sel := ''Bakery''\<rparr>"

text \<open>A store in which \<^verbatim>\<open>df\<close> names the scenario's table and nothing is computed yet.\<close>

definition initial_state :: state where
  "initial_state =
    \<lparr>heap = [scenario_df], df_ref = 0, df_filtered_ref = 0, total_sales_var = 0,
     unique_orders_var = 0, avg_order_value_var = None, loyalty_ratio_var = None,
     chart_var = NoChart, top_skus_var = []\<rparr>"

section \<open>The filter engine meets its contract\<close>

lemma apply_filters_eq_filter: "apply_filters f df = filter (satisfies f) df"
  unfolding apply_filters_def Let_def mask_eq_def
  by (rule filter_cong[OF refl, THEN trans[rotated]])
     (auto simp: satisfies_def age_between_def split: option.splits)

text \<open>
  C1. For every filter specification the filtered table is exactly the list of input
  rows that satisfy all active predicates, in input order and with every row unchanged:
  each of its rows satisfies the predicates, and it is a subsequence of the input and
  never longer than it.
\<close>

theorem filtered_rows_exact:
  "apply_filters f df = filter (satisfies f) df \<and>
   list_all (satisfies f) (apply_filters f df) \<and>
   length (apply_filters f df) \<le> length df \<and>
   subseq (apply_filters f df) df"
  by (simp add: apply_filters_eq_filter list_all_iff)

text \<open>
  C2. Filtering is idempotent: applying the same filter specification to an already
  filtered table changes nothing.
\<close>

theorem apply_filters_idempotent:
  "apply_filters f (apply_filters f df) = apply_filters f df"
  by (simp add: apply_filters_eq_filter)

section \<open>Key figures\<close>

lemma total_sales_present: "total_sales df = sum_list (List.map_filter line_value_aed df)"
  unfolding total_sales_def series_sum_def by (induction df) (auto split: option.splits)

lemma satisfies_ignores_value:
  "satisfies f (r\<lparr>line_value_aed := v\<rparr>) = satisfies f r"
  by (simp add: satisfies_def)

lemma grocery_rows: "apply_filters grocery_filter scenario_df = take 2 scenario_df"
  by (simp add: apply_filters_eq_filter satisfies_def grocery_filter_def no_filter_def
      scenario_df_def blank_row_def)

text \<open>
  C3. Total sales is the sum of the values of \<^verbatim>\<open>line_value_aed\<close> that are present. A
  row whose value is missing adds nothing to the sum, and whether a row passes the
  filters does not depend on its value, so such a row stays in the filtered table. In
  the scenario, the filter on department Grocery keeps the first two rows, one of them
  without a value: two rows, two orders, total sales 100.
\<close>

theorem total_sales_skips_nulls:
  "total_sales df = sum_list (List.map_filter line_value_aed df) \<and>
   total_sales (xs @ r\<lparr>line_value_aed := None\<rparr> # ys) = total_sales (xs @ ys) \<and>
   satisfies f (r\<lparr>line_value_aed := None\<rparr>) = satisfies f r \<and>
   apply_filters grocery_filter scenario_df = take 2 scenario_df \<and>
   length (apply_filters grocery_filter scenario_df) = 2 \<and>
   unique_orders (apply_filters grocery_filter scenario_df) = 2 \<and>
   total_sales (apply_filters grocery_filter scenario_df) = 100"
proof (intro conjI)
  show "total_sales df = sum_list (List.map_filter line_value_aed df)"
    by (rule total_sales_present)
  show "total_sales (xs @ r\<lparr>line_value_aed := None\<rparr> # ys) = total_sales (xs @ ys)"
    by (simp add: total_sales_def series_sum_def)
  show "satisfies f (r\<lparr>line_value_aed := None\<rparr>) = satisfies f r"
    by (rule satisfies_ignores_value)
  show "apply_filters grocery_filter scenario_df = take 2 scenario_df"
    by (rule grocery_rows)
  show "length (apply_filters grocery_filter scenario_df) = 2"
    unfolding grocery_rows by (simp add: scenario_df_def)
  show "unique_orders (apply_filters grocery_filter scenario_df) = 2"
    unfolding grocery_rows
    by (simp add: scenario_df_def blank_row_def unique_orders_def nunique_def)
  show "total_sales (apply_filters grocery_filter scenario_df) = 100"
    unfolding grocery_rows
    by (simp add: scenario_df_def blank_row_def total_sales_def series_sum_def)
qed

text \<open>
  C4. On an empty table every filter yields the empty table, and no aggregation has an
  error result: total sales is 0, the number of unique orders is 0, the average order
  value and the loyalty ratio are missing (NaN), which is not the number 0. The series
  behind the charts that do not sort by value are empty, and the series of orders by
  day of week holds a missing value for each of the seven days. In the scenario, the
  filter on department Bakery matches no row, and the key figures are these.
\<close>

theorem empty_table_aggregates:
  "apply_filters f [] = [] \<and>
   total_sales [] = 0 \<and>
   unique_orders [] = 0 \<and>
   avg_order_value [] = None \<and> avg_order_value [] \<noteq> Some 0 \<and>
   loyalty_ratio [] = None \<and> loyalty_ratio [] \<noteq> Some 0 \<and>
   plot_monthly_trend [] = [] \<and>
   plot_channel_ratio [] = [] \<and>
   plot_aov [] = [] \<and>
   plot_basket_size [] = [] \<and>
   plot_dow [] = map (\<lambda>d. (d, None)) weekdays \<and>
   apply_filters bakery_filter scenario_df = [] \<and>
   total_sales (apply_filters bakery_filter scenario_df) = 0 \<and>
   avg_order_value (apply_filters bakery_filter scenario_df) = None"
  by (simp add: apply_filters_eq_filter satisfies_def bakery_filter_def no_filter_def
      scenario_df_def blank_row_def total_sales_def unique_orders_def
      avg_order_value_def loyalty_ratio_def series_sum_def series_mean_def series_count_def
      nunique_def groupby_sum_def groupby_nunique_def groupby_def group_keys_def
      plot_monthly_trend_def plot_channel_ratio_def plot_aov_def plot_basket_size_def
      plot_dow_def reindex_def sort_index_def)

section \<open>Rankings\<close>
































section \<open>Orders by day of week\<close>

lemma map_of_tabulate:
  "map_of (map (\<lambda>k. (k, f k)) ks) d = (if d \<in> set ks then Some (f d) else None)"
  by (induction ks) auto

lemma set_present: "set (List.map_filter key t) = {k. Some k \<in> set (map key t)}"
  by (induction t) (auto split: option.splits)

lemma set_group_keys: "set (group_keys key t) = {k. Some k \<in> set (map key t)}"
  unfolding group_keys_def by (simp only: set_sort set_remdups set_present)

lemma groupby_nunique_lookup:
  "map_of (groupby_nunique key col t) d =
    (if Some d \<in> set (map key t)
     then Some (nunique (map col (filter (\<lambda>r. key r = Some d) t)))
     else None)"
proof -
  have "groupby_nunique key col t =
        map (\<lambda>k. (k, nunique (map col (filter (\<lambda>r. key r = Some k) t)))) (group_keys key t)"
    unfolding groupby_nunique_def groupby_def by simp
  then show ?thesis
    by (simp only: map_of_tabulate set_group_keys mem_Collect_eq)
qed

text \<open>
  C7, as the code has it. The series of orders by day of week has one entry for each of
  the seven days, Monday to Sunday in this order. A day on which the table has rows
  holds the number of distinct order ids of those rows; a day on which it has none
  holds a missing value (NaN), since the series is reindexed without a fill value.
\<close>

theorem plot_dow_all_days:
  "plot_dow df =
    map (\<lambda>d. (d, if Some d \<in> set (map day_of_week df)
                  then Some (nunique (map order_id (filter (\<lambda>r. day_of_week r = Some d) df)))
                  else None))
        [''Monday'', ''Tuesday'', ''Wednesday'', ''Thursday'', ''Friday'', ''Saturday'',
         ''Sunday'']"
  unfolding plot_dow_def reindex_def weekdays_def by (simp only: groupby_nunique_lookup)

text \<open>
  C7, as the specification has it, asks for the count 0 on a day without orders. On a
  table with orders on Monday and Friday only, Sunday is reported, but with a missing
  value and not with 0.
\<close>

theorem plot_dow_missing_day_counterexample:
  "plot_dow no_sunday_df =
     [(''Monday'', Some 2), (''Tuesday'', None), (''Wednesday'', None), (''Thursday'', None),
      (''Friday'', Some 1), (''Saturday'', None), (''Sunday'', None)] \<and>
   (''Sunday'', Some 0) \<notin> set (plot_dow no_sunday_df)"
  by (simp add: plot_dow_def reindex_def weekdays_def groupby_nunique_lookup no_sunday_df_def
      blank_row_def nunique_def)

section \<open>Dataset loader\<close>

text \<open>
  C8. The loader is to tolerate a malformed cell by making it missing. It does so for
  \<^verbatim>\<open>order_month\<close>, \<^verbatim>\<open>line_value_aed\<close> and \<^verbatim>\<open>quantity\<close>, which lines 17, 20
  and 21 convert with \<^verbatim>\<open>errors='coerce'\<close>: the file \<open>messy_csv\<close>, with a cell of each
  of them that does not parse, is loaded, and those cells are missing. It does not for
  \<^verbatim>\<open>order_datetime\<close>: a single row whose timestamp is the text \<^verbatim>\<open>yesterday\<close> makes
  the loader raise, since the reader leaves the column as text and line 18 asks it for
  \<^verbatim>\<open>.dt\<close>.
\<close>

theorem load_data_raises_on_bad_datetime:
  "order_datetime_text (bad_datetime_csv ! 0) = Some ''yesterday'' \<and>
   parse_dates example_parsers ''yesterday'' = None \<and>
   load_data example_parsers bad_datetime_csv = Inl AttributeError \<and>
   map_sum id (map line_value_aed) (load_data example_parsers messy_csv) =
     Inr [Some 12.5, None] \<and>
   map_sum id (map quantity) (load_data example_parsers messy_csv) = Inr [Some 3, None] \<and>
   map_sum id (map order_month_dt) (load_data example_parsers messy_csv) =
     Inr [Some 1704067200000000000, None] \<and>
   map_sum id (map order_datetime) (load_data example_parsers messy_csv) =
     Inr [Some 1704105000000000000, None]"
  by (simp add: load_data_def load_row_def coerce_def datetime_dtype_def example_parsers_def
      bad_datetime_csv_def messy_csv_def blank_csv_row_def)

section \<open>Export and reload\<close>

text \<open>
  C9. The round trip is to hold for every filtered table. A selection that no row
  matches gives the empty table, which is a valid result. Its export is the header
  alone, whatever the format of a row; the reader finds no row in it and converts no
  dates, so that \<^verbatim>\<open>order_datetime\<close> is not a column of timestamps and line 18 raises
  as it does on a timestamp that does not parse: loading the exported file gives an
  error and not the table without rows.
\<close>

theorem export_reload_empty_raises:
  "apply_filters bakery_filter scenario_df = [] \<and>
   to_csv header write_row (apply_filters bakery_filter scenario_df) = [header] \<and>
   read_csv read_row (to_csv header write_row (apply_filters bakery_filter scenario_df)) = [] \<and>
   load_data P (read_csv read_row (to_csv header write_row
     (apply_filters bakery_filter scenario_df))) = Inl AttributeError"
  by (simp add: apply_filters_eq_filter satisfies_def bakery_filter_def no_filter_def
      scenario_df_def blank_row_def to_csv_def read_csv_def load_data_def datetime_dtype_def)

section \<open>The loaded table is never written\<close>

lemma select_rows_inv:
  assumes "frame_inv s0 s t"
  shows "frame_inv s0 (select_rows keep s) (filter keep t)"
  using assms
  by (auto simp: frame_inv_def select_rows_def getitem_mask_def alloc_def nth_append)

lemma select_rows_if_inv:
  assumes "frame_inv s0 s t"
  shows "frame_inv s0 (if c then select_rows keep s else s) (if c then filter keep t else t)"
  using assms select_rows_inv by simp

lemma copy_inv:
  assumes "df_ref s < length (heap s)"
  shows "frame_inv s
           ((snd (frame_copy (df_ref s) s))\<lparr>df_filtered_ref := fst (frame_copy (df_ref s) s)\<rparr>)
           (heap s ! df_ref s)"
  using assms by (simp add: frame_inv_def frame_copy_def alloc_def nth_append)

text \<open>The filter steps on the store compute what \<open>apply_filters\<close> computes on tables.\<close>

lemma run_filters_inv:
  assumes "df_ref s < length (heap s)"
  shows "frame_inv s (run_filters f s) (apply_filters f (heap s ! df_ref s))"
  unfolding run_filters_def apply_filters_def Let_def mask_eq_def case_prod_beta
  by (intro select_rows_if_inv select_rows_inv copy_inv assms)

text \<open>
  C10. Let \<^verbatim>\<open>df\<close> name an object of the store. After the filter steps and the
  aggregations, for every filter specification and chart selection, \<^verbatim>\<open>df\<close> names the
  same object, that object and every other object that existed before are unchanged,
  \<^verbatim>\<open>df_filtered\<close> names a different object, which holds the filtered rows, and the
  key figures and the chart are those of the filtered rows.
\<close>

theorem run_script_leaves_df:
  assumes "df_ref s < length (heap s)"
  shows "df_ref (run_script f g argsort s) = df_ref s \<and>
         heap (run_script f g argsort s) ! df_ref s = heap s ! df_ref s \<and>
         take (length (heap s)) (heap (run_script f g argsort s)) = heap s \<and>
         df_filtered_ref (run_script f g argsort s) \<noteq> df_ref s \<and>
         heap (run_script f g argsort s) ! df_filtered_ref (run_script f g argsort s) =
           apply_filters f (heap s ! df_ref s) \<and>
         total_sales_var (run_script f g argsort s) =
           total_sales (apply_filters f (heap s ! df_ref s)) \<and>
         chart_var (run_script f g argsort s) =
           show_chart g argsort (apply_filters f (heap s ! df_ref s))"
proof -
  let ?s1 = "run_filters f s"
  have inv: "frame_inv s ?s1 (apply_filters f (heap s ! df_ref s))"
    by (rule run_filters_inv[OF assms])
  have same: "heap (run_script f g argsort s) = heap ?s1"
       "df_ref (run_script f g argsort s) = df_ref ?s1"
       "df_filtered_ref (run_script f g argsort s) = df_filtered_ref ?s1"
       "total_sales_var (run_script f g argsort s) = total_sales (heap ?s1 ! df_filtered_ref ?s1)"
       "chart_var (run_script f g argsort s) =
          show_chart g argsort (heap ?s1 ! df_filtered_ref ?s1)"
    by (simp_all add: run_script_def run_aggregations_def Let_def)
  have "heap ?s1 ! df_ref s = take (length (heap s)) (heap ?s1) ! df_ref s"
    using assms by simp
  also have "\<dots> = heap s ! df_ref s"
    using inv by (simp add: frame_inv_def)
  finally have old: "heap ?s1 ! df_ref s = heap s ! df_ref s" .
  show ?thesis
    unfolding same using inv old assms by (auto simp: frame_inv_def)
qed

theorem run_script_leaves_df_witness:
  "df_ref initial_state < length (heap initial_state) \<and>
   df_ref (run_script grocery_filter ''Top Cities'' stable_argsort initial_state) = 0 \<and>
   heap (run_script grocery_filter ''Top Cities'' stable_argsort initial_state) ! 0 =
     scenario_df \<and>
   df_filtered_ref (run_script grocery_filter ''Top Cities'' stable_argsort initial_state) \<noteq> 0 \<and>
   heap (run_script grocery_filter ''Top Cities'' stable_argsort initial_state) !
     df_filtered_ref (run_script grocery_filter ''Top Cities'' stable_argsort initial_state) =
       take 2 scenario_df \<and>
   total_sales_var (run_script grocery_filter ''Top Cities'' stable_argsort initial_state) = 100"
proof -
  have h: "df_ref initial_state < length (heap initial_state)"
    by (simp add: initial_state_def)
  have s: "heap initial_state ! 0 = scenario_df" "df_ref initial_state = 0"
    by (simp_all add: initial_state_def)
  have t: "total_sales (take 2 scenario_df) = 100"
    by (simp add: scenario_df_def blank_row_def total_sales_def series_sum_def)
  show ?thesis
    using run_script_leaves_df[OF h, of grocery_filter "''Top Cities''" stable_argsort] h
    by (simp add: s grocery_rows t)
qed

end
